theory Spec2Isabelle
  imports Complex_Main "HOL-Library.Multiset"
begin

section \<open>Static analysis (package analysis)\<close>

text \<open>
  Go's \<open>int\<close> is modelled by \<open>int\<close>: line numbers, counters and slice lengths stay far
  from the 64-bit bounds. Go's \<open>float32\<close> and \<open>float64\<close> values are modelled by the real
  numbers they denote: arithmetic is exact, and the conversions between the two widths
  are the identity.
\<close>

record FunctionInfo =
  Name :: string
  StartLine :: int
  EndLine :: int
  LOC :: int
  Complexity :: int
  Parameters :: "string list"
  ReturnType :: string
  IsExported :: bool
  Comments :: string

text \<open>
  Of \<open>FileAnalysis\<close> the embedding generator reads the language and the functions; the
  metrics, classes, imports and issues are left out.
\<close>

record FileAnalysis =
  FilePath :: string
  Language :: string
  Functions :: "FunctionInfo list"

text \<open>
  \<open>AnalysisResult.Files\<close> is a Go map from file path to file analysis. A \<open>range\<close> over it
  visits the files in an order the runtime picks, so the model is the list of its
  key and value pairs in the order of that visit.
\<close>

type_synonym AnalysisResult = "(string \<times> FileAnalysis) list"

subsection \<open>The syntax tree of a function declaration\<close>

text \<open>
  \<open>go/ast\<close> belongs to the Go library. \<open>ast.Inspect\<close> walks a tree depth first: it calls
  the visitor on a node and, when the visitor returns true, on each non-nil child in
  turn. A node is modelled by its kind and its children; the kinds are the ones the
  type switch of \<open>calculateComplexity\<close> tells apart, and a binary expression carries its
  operator token.
\<close>

datatype token = LAND | LOR | OtherToken string

datatype node_kind =
  IfStmt | ForStmt | RangeStmt | CaseClause | CommClause | BinaryExpr token | OtherNode string

datatype node = Node node_kind "node list"

fun Inspect :: "(node \<Rightarrow> 's \<Rightarrow> 's) \<Rightarrow> node \<Rightarrow> 's \<Rightarrow> 's" where
  "Inspect f (Node k children) s = fold (Inspect f) children (f (Node k children) s)"

text \<open>
  What \<open>extractFunction\<close> reads of an \<open>*ast.FuncDecl\<close>: the name and whether it is
  exported, the lines of \<open>Pos()\<close> and \<open>End()\<close> in the file set, the names of each
  parameter group (\<open>None\<close> for a nil \<open>Type.Params\<close>), the text of the doc comment
  (\<open>None\<close> for a nil \<open>Doc\<close>), and the declaration as a syntax tree.
\<close>

record FuncDecl =
  DeclName :: string
  DeclIsExported :: bool
  PosLine :: int
  EndPosLine :: int
  Params :: "string list list option"
  Doc :: "string option"
  Syntax :: node

text \<open>The visitor of \<open>calculateComplexity\<close>: the type switch on the node.\<close>

fun count_node :: "node \<Rightarrow> int \<Rightarrow> int" where
  "count_node (Node IfStmt _) complexity = complexity + 1"
| "count_node (Node ForStmt _) complexity = complexity + 1"
| "count_node (Node RangeStmt _) complexity = complexity + 1"
| "count_node (Node CaseClause _) complexity = complexity + 1"
| "count_node (Node CommClause _) complexity = complexity + 1"
| "count_node (Node (BinaryExpr op) _) complexity =
     (if op = LAND \<or> op = LOR then complexity + 1 else complexity)"
| "count_node (Node (OtherNode _) _) complexity = complexity"

definition calculateComplexity :: "FuncDecl \<Rightarrow> int" where
  "calculateComplexity funcDecl = Inspect count_node (Syntax funcDecl) 1"




section \<open>Embedding index and similarity search (package embeddings)\<close>

record CodeEmbedding =
  ID :: string
  FilePath :: string
  FuncName :: string
  StartLine :: int
  EndLine :: int
  Code :: string
  Embedding :: "real list"
  Language :: string

record EmbeddingIndex =
  Embeddings :: "CodeEmbedding list"
  Dimension :: int
  Provider :: string
  Version :: string

text \<open>\<open>SimilarityResult\<close> embeds a \<open>CodeEmbedding\<close> and adds the score.\<close>

record SimilarityResult =
  CodeEmbedding :: CodeEmbedding
  Similarity :: real

subsection \<open>cosineSimilarity\<close>

text \<open>The loop \<open>for i := 0; i < len(a); i++\<close> with its three accumulators.\<close>

function cosine_loop ::
  "real list \<Rightarrow> real list \<Rightarrow> nat \<Rightarrow> real \<Rightarrow> real \<Rightarrow> real \<Rightarrow> real \<times> real \<times> real" where
  "cosine_loop a b i dotProduct normA normB =
     (if i < length a
      then cosine_loop a b (Suc i)
             (dotProduct + a ! i * b ! i) (normA + a ! i * a ! i) (normB + b ! i * b ! i)
      else (dotProduct, normA, normB))"
  by pat_completeness auto
termination
  by (relation "measure (\<lambda>(a, b, i, d, na, nb). length a - i)") auto

declare cosine_loop.simps [simp del]

definition cosineSimilarity :: "real list \<Rightarrow> real list \<Rightarrow> real" where
  "cosineSimilarity a b =
     (if length a \<noteq> length b then 0
      else case cosine_loop a b 0 0 0 0 of
        (dotProduct, normA, normB) \<Rightarrow>
          if normA = 0 \<or> normB = 0 then 0
          else dotProduct / (sqrt normA * sqrt normB))"



subsection \<open>sort.Slice\<close>

text \<open>
  \<open>sort.Slice\<close> belongs to the Go library. It promises a permutation ordered by \<open>less\<close>
  and no order among elements that \<open>less\<close> does not separate. On slices of at most
  twelve elements the library runs its insertion sort,
  \<^verbatim>\<open>for i := a + 1; i < b; i++ { for j := i; j > a && less(j, j-1); j-- { swap(j, j-1) } }\<close>,
  which is the algorithm modelled here: \<open>sift\<close> is the inner loop, working on the
  already ordered prefix read from its right end.
\<close>

fun sift :: "('a \<Rightarrow> 'a \<Rightarrow> bool) \<Rightarrow> 'a \<Rightarrow> 'a list \<Rightarrow> 'a list" where
  "sift lt x [] = [x]"
| "sift lt x (y # rprefix) =
     (if lt x y then y # sift lt x rprefix else x # y # rprefix)"

definition sort_Slice :: "('a \<Rightarrow> 'a \<Rightarrow> bool) \<Rightarrow> 'a list \<Rightarrow> 'a list" where
  "sort_Slice lt xs = rev (foldl (\<lambda>rprefix x. sift lt x rprefix) [] xs)"

subsection \<open>SimilaritySearch\<close>

datatype panic = SliceBoundsOutOfRange

definition score_all :: "real list \<Rightarrow> CodeEmbedding list \<Rightarrow> SimilarityResult list" where
  "score_all queryEmbedding embs =
     map (\<lambda>codeEmb. \<lparr>CodeEmbedding = codeEmb,
                      Similarity = cosineSimilarity queryEmbedding (Embedding codeEmb)\<rparr>) embs"

definition Search :: "EmbeddingIndex \<Rightarrow> real list \<Rightarrow> int \<Rightarrow> panic + SimilarityResult list" where
  "Search index queryEmbedding topK =
     (if length (Embeddings index) = 0 then Inr []
      else
        let results = score_all queryEmbedding (Embeddings index);
            results = sort_Slice (\<lambda>ri rj. Similarity ri > Similarity rj) results;
            topK = (if topK > int (length results) then int (length results) else topK)
        in if topK < 0 then Inl SliceBoundsOutOfRange
           else Inr (take (nat topK) results))"

definition FindDuplicates ::
  "EmbeddingIndex \<Rightarrow> real list \<Rightarrow> real \<Rightarrow> string \<Rightarrow> panic + SimilarityResult list" where
  "FindDuplicates index queryEmbedding threshold excludeID =
     (case Search index queryEmbedding (int (length (Embeddings index))) of
        Inl p \<Rightarrow> Inl p
      | Inr results \<Rightarrow>
          Inr (filter (\<lambda>result. ID (CodeEmbedding result) \<noteq> excludeID \<and> Similarity result \<ge> threshold)
                 results))"

subsection \<open>Embedding providers\<close>

text \<open>
  An HTTP exchange as the providers see it: the client call fails, or it returns a
  status code and a body. The body is given by what \<open>json.Decode\<close> makes of it: \<open>None\<close> when
  decoding fails, otherwise the decoded field (\<open>embedding\<close> for Ollama, the embeddings
  of \<open>data\<close> for OpenAI).
\<close>

datatype 'a http_reply = ConnError | Response int "'a option"

text \<open>
  The network is the environment. Requests are numbered in the order they are sent, and
  the reply of a backend may depend on that number as well as on the text, so a backend
  can fail and recover.
\<close>

record network =
  ollama_tags :: "unit http_reply"
  ollama_embeddings :: "nat \<Rightarrow> string \<Rightarrow> real list http_reply"
  openai_embeddings :: "nat \<Rightarrow> string \<Rightarrow> real list list http_reply"

datatype embed_error =
    OllamaRequestFailed | OllamaStatus int | OllamaDecodeFailed | OllamaEmptyEmbedding
  | OpenAIRequestFailed | OpenAIStatus int | OpenAIDecodeFailed | OpenAIEmptyEmbedding
  | NoProviderAvailable

text \<open>
  \<open>OllamaProvider.GenerateEmbedding\<close> and \<open>OpenAIProvider.GenerateEmbedding\<close>, each from the
  reply to its request. Marshalling a request of two strings cannot fail.
\<close>

definition Ollama_GenerateEmbedding :: "real list http_reply \<Rightarrow> embed_error + real list" where
  "Ollama_GenerateEmbedding reply =
     (case reply of
        ConnError \<Rightarrow> Inl OllamaRequestFailed
      | Response status body \<Rightarrow>
          if status \<noteq> 200 then Inl (OllamaStatus status)
          else (case body of
                  None \<Rightarrow> Inl OllamaDecodeFailed
                | Some embedding \<Rightarrow>
                    if length embedding = 0 then Inl OllamaEmptyEmbedding else Inr embedding))"

definition OpenAI_GenerateEmbedding :: "real list list http_reply \<Rightarrow> embed_error + real list" where
  "OpenAI_GenerateEmbedding reply =
     (case reply of
        ConnError \<Rightarrow> Inl OpenAIRequestFailed
      | Response status body \<Rightarrow>
          if status \<noteq> 200 then Inl (OpenAIStatus status)
          else (case body of
                  None \<Rightarrow> Inl OpenAIDecodeFailed
                | Some [] \<Rightarrow> Inl OpenAIEmptyEmbedding
                | Some (embedding # _) \<Rightarrow>
                    if length embedding = 0 then Inl OpenAIEmptyEmbedding else Inr embedding))"

definition Ollama_IsAvailable :: "unit http_reply \<Rightarrow> bool" where
  "Ollama_IsAvailable reply =
     (case reply of ConnError \<Rightarrow> False | Response status _ \<Rightarrow> status = 200)"

record OllamaProvider =
  baseURL :: string
  ollama_model :: string

record OpenAIProvider =
  apiKey :: string
  openai_model :: string

definition NewOllamaProvider :: "string \<Rightarrow> string \<Rightarrow> OllamaProvider" where
  "NewOllamaProvider url model =
     \<lparr>baseURL = (if url = [] then ''http://localhost:11434'' else url),
      ollama_model = (if model = [] then ''nomic-embed-text'' else model)\<rparr>"

definition NewOpenAIProvider :: "string \<Rightarrow> string \<Rightarrow> OpenAIProvider" where
  "NewOpenAIProvider key model =
     \<lparr>apiKey = key,
      openai_model = (if model = [] then ''text-embedding-3-small'' else model)\<rparr>"

text \<open>\<open>openai\<close> is a pointer that stays nil without a key: \<open>None\<close>.\<close>

record HybridProvider =
  ollama :: OllamaProvider
  openai :: "OpenAIProvider option"
  useOllama :: bool

definition NewHybridProvider ::
  "network \<Rightarrow> string \<Rightarrow> string \<Rightarrow> string \<Rightarrow> string \<Rightarrow> HybridProvider" where
  "NewHybridProvider net ollamaURL ollamaModel openaiKey openaiModel =
     \<lparr>ollama = NewOllamaProvider ollamaURL ollamaModel,
      openai = (if openaiKey \<noteq> [] then Some (NewOpenAIProvider openaiKey openaiModel) else None),
      useOllama = Ollama_IsAvailable (ollama_tags net)\<rparr>"

text \<open>
  A session is one provider instance together with the log of the embedding requests
  sent so far, oldest first. The log is not in the source; it records which backend
  each call reached.
\<close>

datatype backend = Ollama | OpenAI

record session =
  hybrid :: HybridProvider
  sent :: "(backend \<times> string) list"

definition new_session :: "HybridProvider \<Rightarrow> session" where
  "new_session p = \<lparr>hybrid = p, sent = []\<rparr>"

text \<open>
  \<open>HybridProvider.GenerateEmbedding\<close>. The first step is the block guarded by
  \<open>p.useOllama\<close>: it returns early with the embedding, or clears the flag and falls
  through.
\<close>

definition try_ollama :: "network \<Rightarrow> string \<Rightarrow> session \<Rightarrow> real list option \<times> session" where
  "try_ollama net text s =
     (if useOllama (hybrid s) then
        (case Ollama_GenerateEmbedding (ollama_embeddings net (length (sent s)) text) of
           Inr embedding \<Rightarrow> (Some embedding, s\<lparr>sent := sent s @ [(Ollama, text)]\<rparr>)
         | Inl err \<Rightarrow>
             (None, s\<lparr>sent := sent s @ [(Ollama, text)],
                       hybrid := (hybrid s)\<lparr>useOllama := False\<rparr>\<rparr>))
      else (None, s))"

definition Hybrid_GenerateEmbedding ::
  "network \<Rightarrow> string \<Rightarrow> session \<Rightarrow> (embed_error + real list) \<times> session" where
  "Hybrid_GenerateEmbedding net text s =
     (case try_ollama net text s of
        (Some embedding, s1) \<Rightarrow> (Inr embedding, s1)
      | (None, s1) \<Rightarrow>
          (case openai (hybrid s1) of
             Some _ \<Rightarrow>
               (OpenAI_GenerateEmbedding (openai_embeddings net (length (sent s1)) text),
                s1\<lparr>sent := sent s1 @ [(OpenAI, text)]\<rparr>)
           | None \<Rightarrow> (Inl NoProviderAvailable, s1)))"

definition Hybrid_GetDimension :: "HybridProvider \<Rightarrow> int" where
  "Hybrid_GetDimension p =
     (if useOllama p then 768 else if openai p \<noteq> None then 1536 else 768)"

definition Hybrid_GetName :: "HybridProvider \<Rightarrow> string" where
  "Hybrid_GetName p =
     (if useOllama p then ''Ollama'' else if openai p \<noteq> None then ''OpenAI'' else ''None'')"



text \<open>A sequence of calls on one instance: the results in order, and the final session.\<close>

fun call_sequence ::
  "network \<Rightarrow> string list \<Rightarrow> session \<Rightarrow> (embed_error + real list) list \<times> session" where
  "call_sequence net [] s = ([], s)"
| "call_sequence net (text # texts) s =
     (case Hybrid_GenerateEmbedding net text s of
        (r, s1) \<Rightarrow> (case call_sequence net texts s1 of (rs, s2) \<Rightarrow> (r # rs, s2)))"

subsection \<open>DuplicateDetector\<close>

record DuplicateDetector =
  search :: EmbeddingIndex
  threshold :: real

definition NewDuplicateDetector :: "EmbeddingIndex \<Rightarrow> real \<Rightarrow> DuplicateDetector" where
  "NewDuplicateDetector index t =
     \<lparr>search = index, threshold = (if t = 0 then 0.85 else t)\<rparr>"

datatype detect_error = EmbeddingFailed embed_error | Panicked panic

definition DetectDuplicates ::
  "network \<Rightarrow> DuplicateDetector \<Rightarrow> string \<Rightarrow> string \<Rightarrow> string \<Rightarrow> session \<Rightarrow>
   (detect_error + SimilarityResult list) \<times> session" where
  "DetectDuplicates net d code filePath funcName s =
     (case Hybrid_GenerateEmbedding net code s of
        (Inl err, s1) \<Rightarrow> (Inl (EmbeddingFailed err), s1)
      | (Inr embedding, s1) \<Rightarrow>
          (case FindDuplicates (search d) embedding (threshold d) [] of
             Inl p \<Rightarrow> (Inl (Panicked p), s1)
           | Inr duplicates \<Rightarrow>
               (Inr (filter (\<lambda>dup. FilePath (CodeEmbedding dup) \<noteq> filePath
                                 \<or> FuncName (CodeEmbedding dup) \<noteq> funcName) duplicates),
                s1)))"

subsection \<open>Generator\<close>

text \<open>Decimal printing of an integer, as \<open>%d\<close> does, and \<open>%v\<close> of a slice of strings.\<close>

fun digits10 :: "nat \<Rightarrow> string" where
  "digits10 n =
     (if n < 10 then [''0123456789'' ! n]
      else digits10 (n div 10) @ [''0123456789'' ! (n mod 10)])"

declare digits10.simps [simp del]

definition itoa :: "int \<Rightarrow> string" where
  "itoa n = (if n < 0 then CHR ''-'' # digits10 (nat (- n)) else digits10 (nat n))"

fun join_space :: "string list \<Rightarrow> string" where
  "join_space [] = []"
| "join_space [x] = x"
| "join_space (x # y # ys) = x @ '' '' @ join_space (y # ys)"

definition fmt_slice :: "string list \<Rightarrow> string" where
  "fmt_slice xs = ''['' @ join_space xs @ '']''"

definition newline :: string where
  "newline = [CHR 0x0A]"

definition createCodeSnippet :: "FunctionInfo \<Rightarrow> string \<Rightarrow> string" where
  "createCodeSnippet fn language =
     ''// Language: '' @ language @ newline
     @ ''// Function: '' @ Name fn @ newline
     @ (if length (Parameters fn) > 0
        then ''// Parameters: '' @ fmt_slice (Parameters fn) @ newline else [])
     @ (if ReturnType fn \<noteq> [] then ''// Returns: '' @ ReturnType fn @ newline else [])
     @ (if Comments fn \<noteq> [] then ''// Comments: '' @ Comments fn @ newline else [])
     @ ''// Complexity: '' @ itoa (Complexity fn) @ newline
     @ ''// Lines: '' @ itoa (LOC fn) @ newline"

text \<open>
  \<open>generateID\<close> prints the first eight bytes of the SHA-256 of \<open>file:func:line\<close> in
  hexadecimal. The digest is library code and a parameter here: \<open>digest\<close> maps a string
  to those sixteen hexadecimal digits.
\<close>

definition generateID :: "(string \<Rightarrow> string) \<Rightarrow> string \<Rightarrow> string \<Rightarrow> int \<Rightarrow> string" where
  "generateID digest filePath funcName startLine =
     digest (filePath @ '':'' @ funcName @ '':'' @ itoa startLine)"

text \<open>
  The body of the inner loop of \<open>GenerateForAnalysis\<close> for one function: a failed
  embedding call prints a warning and moves on to the next function, a successful one
  appends an entry. The progress messages are not modelled.
\<close>

definition embed_function ::
  "(string \<Rightarrow> string) \<Rightarrow> network \<Rightarrow> string \<Rightarrow> string \<Rightarrow> FunctionInfo \<Rightarrow>
   CodeEmbedding list \<times> session \<Rightarrow> CodeEmbedding list \<times> session" where
  "embed_function digest net filePath language fn acc =
     (case acc of (embs, s) \<Rightarrow>
        let codeSnippet = createCodeSnippet fn language in
        (case Hybrid_GenerateEmbedding net codeSnippet s of
           (Inl err, s1) \<Rightarrow> (embs, s1)
         | (Inr embedding, s1) \<Rightarrow>
             (embs @ [\<lparr>ID = generateID digest filePath (Name fn) (FunctionInfo.StartLine fn),
                       FilePath = filePath,
                       FuncName = Name fn,
                       StartLine = FunctionInfo.StartLine fn,
                       EndLine = FunctionInfo.EndLine fn,
                       Code = codeSnippet,
                       Embedding = embedding,
                       Language = language\<rparr>],
              s1)))"

definition embed_file ::
  "(string \<Rightarrow> string) \<Rightarrow> network \<Rightarrow> string \<times> FileAnalysis \<Rightarrow>
   CodeEmbedding list \<times> session \<Rightarrow> CodeEmbedding list \<times> session" where
  "embed_file digest net file acc =
     (case file of (filePath, fileAnalysis) \<Rightarrow>
        fold (embed_function digest net filePath (FileAnalysis.Language fileAnalysis))
          (Functions fileAnalysis) acc)"

definition GenerateForAnalysis ::
  "(string \<Rightarrow> string) \<Rightarrow> network \<Rightarrow> AnalysisResult \<Rightarrow> session \<Rightarrow> EmbeddingIndex \<times> session" where
  "GenerateForAnalysis digest net analysisResult s =
     (let index = \<lparr>Embeddings = [],
                   Dimension = Hybrid_GetDimension (hybrid s),
                   Provider = Hybrid_GetName (hybrid s),
                   Version = ''1.0''\<rparr>
      in case fold (embed_file digest net) analysisResult ([], s) of
           (embs, s1) \<Rightarrow> (index\<lparr>Embeddings := embs\<rparr>, s1))"

subsection \<open>Persistence\<close>

text \<open>
  \<open>encoding/json\<close> and \<open>os\<close> belong to the Go library. The content of a file is modelled by
  what \<open>json.Unmarshal\<close> makes of it: \<open>Document index\<close> is a complete JSON document that
  decodes to \<open>index\<close>, as \<open>json.MarshalIndent\<close> writes it; \<open>Partial index\<close> is a proper
  prefix of such a document, which lacks at least the closing brace and does not decode;
  \<open>Garbage\<close> is any other content that does not decode.
\<close>

datatype file_content = Document EmbeddingIndex | Partial EmbeddingIndex | Garbage string

type_synonym filesystem = "string \<rightharpoonup> file_content"

fun json_Unmarshal :: "file_content \<Rightarrow> EmbeddingIndex option" where
  "json_Unmarshal (Document index) = Some index"
| "json_Unmarshal (Partial index) = None"
| "json_Unmarshal (Garbage bytes) = None"

definition json_MarshalIndent :: "EmbeddingIndex \<Rightarrow> file_content" where
  "json_MarshalIndent index = Document index"

text \<open>
  What the operating system does to one \<open>SaveIndex\<close>: nothing goes wrong, the directory
  cannot be created, the file cannot be opened, or the write fails after the file was
  opened. \<open>os.WriteFile\<close> opens the file with \<open>O_TRUNC\<close>, so from the moment it is open the
  old content is gone, and a write that fails leaves a proper prefix of the data.
\<close>

datatype io_fault = NoFault | MkdirFails | OpenFails | WriteFailsPartway

datatype io_error = MkdirFailed | WriteFailed | ReadFailed | UnmarshalFailed

definition truncated :: "file_content \<Rightarrow> file_content" where
  "truncated data = (case data of Document index \<Rightarrow> Partial index | other \<Rightarrow> other)"

definition os_WriteFile ::
  "io_fault \<Rightarrow> string \<Rightarrow> file_content \<Rightarrow> filesystem \<Rightarrow> io_error option \<times> filesystem" where
  "os_WriteFile fault path data fs =
     (case fault of
        OpenFails \<Rightarrow> (Some WriteFailed, fs)
      | WriteFailsPartway \<Rightarrow> (Some WriteFailed, fs(path \<mapsto> truncated data))
      | _ \<Rightarrow> (None, fs(path \<mapsto> data)))"

text \<open>
  \<open>SaveIndex\<close>: \<open>os.MkdirAll\<close>, \<open>json.MarshalIndent\<close> (which cannot fail on an index of
  strings, integers and finite numbers), \<open>os.WriteFile\<close> on the output path itself.
\<close>

definition SaveIndex ::
  "io_fault \<Rightarrow> EmbeddingIndex \<Rightarrow> string \<Rightarrow> filesystem \<Rightarrow> io_error option \<times> filesystem" where
  "SaveIndex fault index outputPath fs =
     (if fault = MkdirFails then (Some MkdirFailed, fs)
      else os_WriteFile fault outputPath (json_MarshalIndent index) fs)"

definition LoadIndex :: "string \<Rightarrow> filesystem \<Rightarrow> io_error + EmbeddingIndex" where
  "LoadIndex indexPath fs =
     (case fs indexPath of
        None \<Rightarrow> Inl ReadFailed
      | Some data \<Rightarrow>
          (case json_Unmarshal data of
             None \<Rightarrow> Inl UnmarshalFailed
           | Some index \<Rightarrow> Inr index))"

section \<open>The context build (package cmd)\<close>

text \<open>
  The part of \<open>runContextBuild\<close> that generates and saves the embeddings. \<open>forceRebuild\<close>
  and \<open>incremental\<close> are the two command-line flags; the source prints them in verbose
  mode and reads them nowhere else. The result is the index that was generated, the
  error of the save if any, and the file system afterwards.
\<close>

definition embeddingPath :: "string \<Rightarrow> string" where
  "embeddingPath rootPath = rootPath @ ''/.katich/embeddings.json''"

definition runContextBuild ::
  "bool \<Rightarrow> bool \<Rightarrow> (string \<Rightarrow> string) \<Rightarrow> network \<Rightarrow> io_fault \<Rightarrow> string \<Rightarrow> string \<Rightarrow>
   AnalysisResult \<Rightarrow> filesystem \<Rightarrow> EmbeddingIndex \<times> io_error option \<times> filesystem" where
  "runContextBuild forceRebuild incremental digest net fault rootPath cfgAPIKey analysisResult fs =
     (let provider = NewHybridProvider net ''http://localhost:11434'' ''nomic-embed-text''
                       cfgAPIKey ''text-embedding-3-small'';
          embeddingIndex = fst (GenerateForAnalysis digest net analysisResult (new_session provider))
      in (embeddingIndex, SaveIndex fault embeddingIndex (embeddingPath rootPath) fs))"

section \<open>Notions used in the statements\<close>

text \<open>All scored entries of an index in the order \<open>Search\<close> ranks them, before the cut at \<open>topK\<close>.\<close>

definition ranked :: "real list \<Rightarrow> EmbeddingIndex \<Rightarrow> SimilarityResult list" where
  "ranked q index =
     sort_Slice (\<lambda>ri rj. Similarity ri > Similarity rj) (score_all q (Embeddings index))"

section \<open>Sample inputs\<close>

definition unit_a :: CodeEmbedding where
  "unit_a = \<lparr>ID = ''a'', FilePath = ''alpha.go'', FuncName = ''Sum'', StartLine = 3, EndLine = 9,
             Code = ''// Function: Sum'', Embedding = [1, 0], Language = ''Go''\<rparr>"

definition unit_b :: CodeEmbedding where
  "unit_b = \<lparr>ID = ''b'', FilePath = ''beta.go'', FuncName = ''Total'', StartLine = 12, EndLine = 18,
             Code = ''// Function: Total'', Embedding = [1, 0], Language = ''Go''\<rparr>"

definition unit_c :: CodeEmbedding where
  "unit_c = \<lparr>ID = ''c'', FilePath = ''gamma.go'', FuncName = ''Parse'', StartLine = 1, EndLine = 40,
             Code = ''// Function: Parse'', Embedding = [0, 1], Language = ''Go''\<rparr>"

definition unit_d :: CodeEmbedding where
  "unit_d = \<lparr>ID = ''d'', FilePath = ''delta.go'', FuncName = ''Wide'', StartLine = 1, EndLine = 4,
             Code = ''// Function: Wide'', Embedding = [1, 0, 0], Language = ''Go''\<rparr>"

definition index_of :: "CodeEmbedding list \<Rightarrow> EmbeddingIndex" where
  "index_of embs = \<lparr>Embeddings = embs, Dimension = 2, Provider = ''Ollama'', Version = ''1.0''\<rparr>"


definition decl_branchy :: FuncDecl where
  "decl_branchy =
     \<lparr>DeclName = ''route'', DeclIsExported = False, PosLine = 20, EndPosLine = 31,
      Params = Some [[''a'', ''b''], [''n'']], Doc = Some ''route picks a handler.'',
      Syntax = Node (OtherNode ''FuncDecl'')
        [Node (OtherNode ''Ident'') [],
         Node (OtherNode ''FuncType'') [Node (OtherNode ''FieldList'') []],
         Node (OtherNode ''BlockStmt'')
           [Node IfStmt
              [Node (BinaryExpr LAND) [Node (OtherNode ''Ident'') [], Node (OtherNode ''Ident'') []],
               Node (OtherNode ''BlockStmt'') []],
            Node ForStmt
              [Node (BinaryExpr (OtherToken ''<'')) [Node (OtherNode ''Ident'') [], Node (OtherNode ''Ident'') []],
               Node (OtherNode ''BlockStmt'') []],
            Node (OtherNode ''SwitchStmt'')
              [Node (OtherNode ''BlockStmt'')
                 [Node CaseClause [Node (OtherNode ''BasicLit'') []],
                  Node CaseClause []]]]]\<rparr>"



text \<open>
  The results the OpenAI backend gives to one request per text, the first of them being
  request number \<open>n\<close>.
\<close>

fun openai_results :: "network \<Rightarrow> nat \<Rightarrow> string list \<Rightarrow> (embed_error + real list) list" where
  "openai_results net n [] = []"
| "openai_results net n (text # texts) =
     OpenAI_GenerateEmbedding (openai_embeddings net n text) # openai_results net (Suc n) texts"

text \<open>
  A network on which Ollama answers the availability probe, refuses the first embedding
  request and answers every later one, and OpenAI always answers; and a session on it
  with an OpenAI key, and one without.
\<close>

definition flaky_net :: network where
  "flaky_net =
     \<lparr>ollama_tags = Response 200 (Some ()),
      ollama_embeddings = (\<lambda>n text. if n = 0 then ConnError else Response 200 (Some [1, 1])),
      openai_embeddings = (\<lambda>n text. Response 200 (Some [[2, 2, 2]]))\<rparr>"

definition keyed_session :: session where
  "keyed_session = new_session (NewHybridProvider flaky_net [] [] ''sk-test'' [])"

definition keyless_session :: session where
  "keyless_session = new_session (NewHybridProvider flaky_net [] [] [] [])"

text \<open>
  A network on which Ollama answers every request with the vector \<open>[1, 0]\<close>, and a
  session on it without an OpenAI key.
\<close>

definition steady_net :: network where
  "steady_net =
     \<lparr>ollama_tags = Response 200 (Some ()),
      ollama_embeddings = (\<lambda>n text. Response 200 (Some [1, 0])),
      openai_embeddings = (\<lambda>n text. ConnError)\<rparr>"

definition steady_session :: session where
  "steady_session = new_session (NewHybridProvider steady_net [] [] [] [])"

text \<open>
  The method \<open>Area\<close> of one type, declared on line 10 of \<open>shape.go\<close>. The same file
  declares a method \<open>Area\<close> of another type on line 30.
\<close>

definition area_line10 :: CodeEmbedding where
  "area_line10 =
     \<lparr>ID = ''5d41402abc4b2a76'', FilePath = ''shape.go'', FuncName = ''Area'',
      StartLine = 10, EndLine = 12, Code = ''// Function: Area'', Embedding = [1, 0],
      Language = ''Go''\<rparr>"





definition retrained_net :: network where
  "retrained_net =
     \<lparr>ollama_tags = Response 200 (Some ()),
      ollama_embeddings = (\<lambda>n text. Response 200 (Some (replicate 768 3))),
      openai_embeddings = (\<lambda>n text. ConnError)\<rparr>"

section \<open>Cosine similarity\<close>

lemmas eval_search = Search_def score_all_def sort_Slice_def cosineSimilarity_def cosine_loop.simps
  index_of_def unit_a_def unit_b_def unit_c_def unit_d_def









section \<open>Sorting and search\<close>

lemma mset_sift: "mset (sift lt x r) = add_mset x (mset r)"
  by (induction r) auto

lemma mset_foldl_sift:
  "mset (foldl (\<lambda>rprefix x. sift lt x rprefix) acc xs) = mset acc + mset xs"
  by (induction xs arbitrary: acc) (auto simp: mset_sift)

lemma mset_sort_Slice: "mset (sort_Slice lt xs) = mset xs"
  by (simp add: sort_Slice_def mset_foldl_sift)

lemma set_sort_Slice: "set (sort_Slice lt xs) = set xs"
  using mset_sort_Slice [of lt xs] by (metis set_mset_mset)

lemma length_sort_Slice: "length (sort_Slice lt xs) = length xs"
  using mset_sort_Slice [of lt xs] by (metis size_mset)

lemma set_sift: "set (sift lt x r) = insert x (set r)"
  by (induction r) auto

lemma sorted_sift:
  "sorted_wrt (\<lambda>a b. key a \<le> key b) r \<Longrightarrow>
   sorted_wrt (\<lambda>a b. (key a :: real) \<le> key b) (sift (\<lambda>a b. key a > key b) x r)"
  by (induction r) (auto simp: set_sift)

lemma sorted_foldl_sift:
  "sorted_wrt (\<lambda>a b. key a \<le> key b) acc \<Longrightarrow>
   sorted_wrt (\<lambda>a b. (key a :: real) \<le> key b)
     (foldl (\<lambda>rprefix x. sift (\<lambda>a b. key a > key b) x rprefix) acc xs)"
  by (induction xs arbitrary: acc) (auto simp: sorted_sift)

lemma sorted_sort_Slice:
  "sorted_wrt (\<lambda>a b. (key a :: real) \<ge> key b) (sort_Slice (\<lambda>a b. key a > key b) xs)"
  using sorted_foldl_sift [of key "[]" xs]
  by (simp add: sort_Slice_def sorted_wrt_rev)

lemma length_ranked: "length (ranked q index) = length (Embeddings index)"
  by (simp add: ranked_def length_sort_Slice score_all_def)

lemma set_ranked: "set (ranked q index) = set (score_all q (Embeddings index))"
  by (simp add: ranked_def set_sort_Slice)

lemma sorted_ranked: "sorted_wrt (\<lambda>ri rj. Similarity ri \<ge> Similarity rj) (ranked q index)"
  by (simp add: ranked_def sorted_sort_Slice)

lemma Search_take:
  "0 \<le> topK \<Longrightarrow> Search index q topK = Inr (take (nat topK) (ranked q index))"
  by (auto simp: Search_def ranked_def Let_def length_sort_Slice score_all_def sort_Slice_def)

lemma Search_negative:
  "topK < 0 \<Longrightarrow> Embeddings index \<noteq> [] \<Longrightarrow> Search index q topK = Inl SliceBoundsOutOfRange"
  by (auto simp: Search_def Let_def)

lemma Search_all: "Search index q (int (length (Embeddings index))) = Inr (ranked q index)"
  by (simp add: Search_take length_ranked)

lemma Search_results_scored:
  assumes "Search index q topK = Inr results" and "r \<in> set results"
  shows "r \<in> set (score_all q (Embeddings index))"
proof (cases "0 \<le> topK")
  case True
  with assms have "r \<in> set (take (nat topK) (ranked q index))"
    by (simp add: Search_take)
  then show ?thesis
    using set_ranked by (metis in_set_takeD)
next
  case False
  with assms show ?thesis
    by (cases "Embeddings index = []") (auto simp: Search_def Let_def)
qed

lemma scored_Similarity:
  "r \<in> set (score_all q embs) \<Longrightarrow>
   Similarity r = cosineSimilarity q (Embedding (CodeEmbedding r)) \<and> CodeEmbedding r \<in> set embs"
  by (auto simp: score_all_def)

text \<open>
  Claim C10. When the two lengths differ, \<open>cosineSimilarity\<close> returns 0 and signals
  nothing. At the search interface: an entry whose embedding has another length than
  the query carries the score 0 in every result list it appears in, and a search over
  the whole index returns it, with score 0, rather than failing.
\<close>

theorem cosineSimilarity_length_mismatch:
  assumes "length a \<noteq> length b"
  shows "cosineSimilarity a b = 0 \<and>
         (\<forall>index topK results r.
            Search index a topK = Inr results \<longrightarrow> r \<in> set results \<longrightarrow>
            Embedding (CodeEmbedding r) = b \<longrightarrow> Similarity r = 0) \<and>
         (\<forall>index codeEmb.
            codeEmb \<in> set (Embeddings index) \<longrightarrow> Embedding codeEmb = b \<longrightarrow>
            (\<exists>results. Search index a (int (length (Embeddings index))) = Inr results \<and>
               \<lparr>CodeEmbedding = codeEmb, Similarity = 0\<rparr> \<in> set results))"
proof (intro conjI allI impI)
  show zero: "cosineSimilarity a b = 0"
    using assms by (simp add: cosineSimilarity_def)
  show "Similarity r = 0"
    if "Search index a topK = Inr results" "r \<in> set results" "Embedding (CodeEmbedding r) = b"
    for index topK results r
    using Search_results_scored [OF that(1,2)] scored_Similarity [of r a "Embeddings index"]
      that(3) zero by simp
  show "\<exists>results. Search index a (int (length (Embeddings index))) = Inr results \<and>
          \<lparr>CodeEmbedding = codeEmb, Similarity = 0\<rparr> \<in> set results"
    if "codeEmb \<in> set (Embeddings index)" "Embedding codeEmb = b" for index codeEmb
  proof -
    have "\<lparr>CodeEmbedding = codeEmb, Similarity = 0\<rparr> \<in> set (score_all a (Embeddings index))"
      using that zero by (force simp: score_all_def)
    then have "\<lparr>CodeEmbedding = codeEmb, Similarity = 0\<rparr> \<in> set (ranked a index)"
      by (simp add: set_ranked)
    then show ?thesis
      by (simp add: Search_all)
  qed
qed

theorem cosineSimilarity_length_mismatch_witness:
  "length [1::real, 0] \<noteq> length [1::real, 0, 0] \<and>
   cosineSimilarity [1, 0] [1, 0, 0] = 0 \<and>
   Search (index_of [unit_d, unit_c]) [1, 0] 2 =
     Inr [\<lparr>CodeEmbedding = unit_d, Similarity = 0\<rparr>, \<lparr>CodeEmbedding = unit_c, Similarity = 0\<rparr>]"
proof -
  have mismatch: "length [1::real, 0] \<noteq> length [1::real, 0, 0]"
    by simp
  have "cosineSimilarity [1, 0] [1, 0, 0] = 0"
    using cosineSimilarity_length_mismatch [OF mismatch] by (rule conjunct1)
  moreover have "Search (index_of [unit_d, unit_c]) [1, 0] 2 =
      Inr [\<lparr>CodeEmbedding = unit_d, Similarity = 0\<rparr>, \<lparr>CodeEmbedding = unit_c, Similarity = 0\<rparr>]"
    by (simp add: eval_search)
  ultimately show ?thesis
    using mismatch by (intro conjI)
qed

text \<open>
  Claim C6, as stated, fails: two entries with the same score come out in the order
  they were inserted, whichever of the two ids is the smaller. With the entries \<open>b\<close>
  and \<open>a\<close> of equal embedding, the index \<open>[b, a]\<close> is ranked \<open>b, a\<close> and the index
  \<open>[a, b]\<close> is ranked \<open>a, b\<close>.
\<close>

theorem Search_tie_order_counterexample:
  "Search (index_of [unit_b, unit_a]) [1, 0] 2 =
     Inr [\<lparr>CodeEmbedding = unit_b, Similarity = 1\<rparr>, \<lparr>CodeEmbedding = unit_a, Similarity = 1\<rparr>] \<and>
   Search (index_of [unit_a, unit_b]) [1, 0] 2 =
     Inr [\<lparr>CodeEmbedding = unit_a, Similarity = 1\<rparr>, \<lparr>CodeEmbedding = unit_b, Similarity = 1\<rparr>]"
  by (simp add: eval_search)

text \<open>
  Claim C6, amended. For a non-negative \<open>topK\<close>, \<open>Search\<close> returns the first
  \<open>min topK n\<close> elements of a list that holds every scored entry of the index exactly
  once and is in descending order of score, \<open>n\<close> being the number of entries; a \<open>topK\<close>
  above \<open>n\<close> returns all of them. The order among entries of equal score is not
  determined by their ids.
\<close>

theorem Search_ranking:
  assumes "0 \<le> topK"
  shows "\<exists>results rest.
           Search index q topK = Inr results \<and>
           length results = min (nat topK) (length (Embeddings index)) \<and>
           mset (results @ rest) = mset (score_all q (Embeddings index)) \<and>
           sorted_wrt (\<lambda>ri rj. Similarity ri \<ge> Similarity rj) (results @ rest)"
proof (intro exI conjI)
  show "Search index q topK = Inr (take (nat topK) (ranked q index))"
    using assms by (rule Search_take)
  show "length (take (nat topK) (ranked q index)) = min (nat topK) (length (Embeddings index))"
    by (simp add: length_ranked min.commute)
  show "mset (take (nat topK) (ranked q index) @ drop (nat topK) (ranked q index)) =
          mset (score_all q (Embeddings index))"
    by (simp add: ranked_def mset_sort_Slice)
  show "sorted_wrt (\<lambda>ri rj. Similarity ri \<ge> Similarity rj)
          (take (nat topK) (ranked q index) @ drop (nat topK) (ranked q index))"
    by (simp add: sorted_ranked)
qed

theorem Search_ranking_witness:
  "(0::int) \<le> 2 \<and>
   Search (index_of [unit_c, unit_b]) [1, 0] 2 =
     Inr [\<lparr>CodeEmbedding = unit_b, Similarity = 1\<rparr>, \<lparr>CodeEmbedding = unit_c, Similarity = 0\<rparr>] \<and>
   length [\<lparr>CodeEmbedding = unit_b, Similarity = 1\<rparr>, \<lparr>CodeEmbedding = unit_c, Similarity = 0\<rparr>] =
     min (nat 2) (length (Embeddings (index_of [unit_c, unit_b])))"
proof -
  have nonneg: "(0::int) \<le> 2"
    by simp
  have run: "Search (index_of [unit_c, unit_b]) [1, 0] 2 =
      Inr [\<lparr>CodeEmbedding = unit_b, Similarity = 1\<rparr>, \<lparr>CodeEmbedding = unit_c, Similarity = 0\<rparr>]"
    by (simp add: eval_search)
  obtain results rest where
    "Search (index_of [unit_c, unit_b]) [1, 0] 2 = Inr results"
    "length results = min (nat 2) (length (Embeddings (index_of [unit_c, unit_b])))"
    using Search_ranking [OF nonneg, of "index_of [unit_c, unit_b]" "[1, 0]"] by blast
  with run have "length [\<lparr>CodeEmbedding = unit_b, Similarity = 1\<rparr>,
      \<lparr>CodeEmbedding = unit_c, Similarity = 0\<rparr>] =
      min (nat 2) (length (Embeddings (index_of [unit_c, unit_b])))"
    by simp
  with nonneg run show ?thesis
    by (intro conjI)
qed

section \<open>Complexity and length of a function\<close>







text \<open>The traversal itself, run on the second declaration.\<close>

lemma calculateComplexity_branchy: "calculateComplexity decl_branchy = 6"
  by (simp add: calculateComplexity_def decl_branchy_def)

section \<open>Failover of the hybrid provider\<close>

lemma Hybrid_without_ollama:
  assumes "\<not> useOllama (hybrid s)"
  shows "Hybrid_GenerateEmbedding net text s =
           (case openai (hybrid s) of
              Some _ \<Rightarrow>
                (OpenAI_GenerateEmbedding (openai_embeddings net (length (sent s)) text),
                 s\<lparr>sent := sent s @ [(OpenAI, text)]\<rparr>)
            | None \<Rightarrow> (Inl NoProviderAvailable, s))"
  using assms by (simp add: Hybrid_GenerateEmbedding_def try_ollama_def)

lemma Hybrid_ollama_fails:
  assumes "useOllama (hybrid s)"
    and "Ollama_GenerateEmbedding (ollama_embeddings net (length (sent s)) text) = Inl err"
  shows "Hybrid_GenerateEmbedding net text s =
           (case openai (hybrid s) of
              Some _ \<Rightarrow>
                (OpenAI_GenerateEmbedding (openai_embeddings net (Suc (length (sent s))) text),
                 s\<lparr>sent := sent s @ [(Ollama, text), (OpenAI, text)],
                   hybrid := (hybrid s)\<lparr>useOllama := False\<rparr>\<rparr>)
            | None \<Rightarrow>
                (Inl NoProviderAvailable,
                 s\<lparr>sent := sent s @ [(Ollama, text)],
                   hybrid := (hybrid s)\<lparr>useOllama := False\<rparr>\<rparr>))"
  using assms by (simp add: Hybrid_GenerateEmbedding_def try_ollama_def split: option.splits)


lemma call_sequence_remote:
  assumes "\<not> useOllama (hybrid s)" and "openai (hybrid s) = Some p"
  shows "call_sequence net texts s =
           (openai_results net (length (sent s)) texts,
            s\<lparr>sent := sent s @ map (Pair OpenAI) texts\<rparr>)"
  using assms
proof (induction texts arbitrary: s)
  case Nil
  then show ?case by simp
next
  case (Cons t ts)
  let ?s1 = "s\<lparr>sent := sent s @ [(OpenAI, t)]\<rparr>"
  have step: "Hybrid_GenerateEmbedding net t s =
      (OpenAI_GenerateEmbedding (openai_embeddings net (length (sent s)) t), ?s1)"
    using Cons.prems by (simp add: Hybrid_without_ollama)
  have "call_sequence net ts ?s1 =
      (openai_results net (length (sent ?s1)) ts,
       ?s1\<lparr>sent := sent ?s1 @ map (Pair OpenAI) ts\<rparr>)"
    using Cons.prems by (intro Cons.IH) simp_all
  with step show ?case by simp
qed

lemma call_sequence_unavailable:
  assumes "\<not> useOllama (hybrid s)" and "openai (hybrid s) = None"
  shows "call_sequence net texts s = (replicate (length texts) (Inl NoProviderAvailable), s)"
  using assms by (induction texts) (simp_all add: Hybrid_without_ollama)

text \<open>
  Claim C5. Take a call that finds the Ollama flag set and whose Ollama request fails,
  and any sequence of calls after it on the same instance, whatever the network does
  later. The flag is cleared by the failing call and is still cleared at the end. With
  OpenAI configured, the failing call sends one request to OpenAI after the one to
  Ollama and returns its outcome, and every later call sends exactly one request, to
  OpenAI, and returns its outcome. Without OpenAI, the failing call and every later
  call fail with the no-provider error and no further request is sent.
\<close>

theorem hybrid_failover_sticky:
  assumes "useOllama (hybrid s)"
    and "Ollama_GenerateEmbedding (ollama_embeddings net (length (sent s)) text) = Inl err"
    and "Hybrid_GenerateEmbedding net text s = (r, s1)"
    and "call_sequence net texts s1 = (rs, s2)"
  shows "\<not> useOllama (hybrid s1) \<and> \<not> useOllama (hybrid s2) \<and>
         (openai (hybrid s) \<noteq> None \<longrightarrow>
            r = OpenAI_GenerateEmbedding (openai_embeddings net (Suc (length (sent s))) text) \<and>
            sent s1 = sent s @ [(Ollama, text), (OpenAI, text)] \<and>
            rs = openai_results net (length (sent s1)) texts \<and>
            sent s2 = sent s1 @ map (Pair OpenAI) texts) \<and>
         (openai (hybrid s) = None \<longrightarrow>
            r = Inl NoProviderAvailable \<and>
            sent s1 = sent s @ [(Ollama, text)] \<and>
            rs = replicate (length texts) (Inl NoProviderAvailable) \<and>
            sent s2 = sent s1)"
proof (cases "openai (hybrid s)")
  case None
  with Hybrid_ollama_fails [OF assms(1,2)] assms(3)
  have first: "r = Inl NoProviderAvailable"
    "s1 = s\<lparr>sent := sent s @ [(Ollama, text)], hybrid := (hybrid s)\<lparr>useOllama := False\<rparr>\<rparr>"
    by simp_all
  then have "\<not> useOllama (hybrid s1)" "openai (hybrid s1) = None"
    using None by simp_all
  from call_sequence_unavailable [OF this] assms(4)
  have "rs = replicate (length texts) (Inl NoProviderAvailable)" "s2 = s1"
    by simp_all
  with first None show ?thesis by simp
next
  case (Some p)
  with Hybrid_ollama_fails [OF assms(1,2)] assms(3)
  have first: "r = OpenAI_GenerateEmbedding (openai_embeddings net (Suc (length (sent s))) text)"
    "s1 = s\<lparr>sent := sent s @ [(Ollama, text), (OpenAI, text)],
            hybrid := (hybrid s)\<lparr>useOllama := False\<rparr>\<rparr>"
    by simp_all
  then have "\<not> useOllama (hybrid s1)" "openai (hybrid s1) = Some p"
    using Some by simp_all
  from call_sequence_remote [OF this] assms(4)
  have "rs = openai_results net (length (sent s1)) texts"
    "s2 = s1\<lparr>sent := sent s1 @ map (Pair OpenAI) texts\<rparr>"
    by simp_all
  with first Some show ?thesis by simp
qed

lemmas eval_provider = Hybrid_GenerateEmbedding_def try_ollama_def Ollama_GenerateEmbedding_def
  OpenAI_GenerateEmbedding_def NewHybridProvider_def NewOllamaProvider_def NewOpenAIProvider_def
  Ollama_IsAvailable_def new_session_def flaky_net_def keyed_session_def keyless_session_def

lemma keyed_first_call:
  "Hybrid_GenerateEmbedding flaky_net ''f'' keyed_session =
     (Inr [2, 2, 2],
      keyed_session\<lparr>sent := [(Ollama, ''f''), (OpenAI, ''f'')],
        hybrid := (hybrid keyed_session)\<lparr>useOllama := False\<rparr>\<rparr>)"
  by (simp add: eval_provider)

theorem hybrid_failover_sticky_witness:
  "useOllama (hybrid keyed_session) \<and>
   Ollama_GenerateEmbedding (ollama_embeddings flaky_net (length (sent keyed_session)) ''f'') =
     Inl OllamaRequestFailed \<and>
   openai (hybrid keyed_session) \<noteq> None \<and>
   fst (Hybrid_GenerateEmbedding flaky_net ''f'' keyed_session) = Inr [2, 2, 2] \<and>
   fst (call_sequence flaky_net [''g'', ''h'']
          (snd (Hybrid_GenerateEmbedding flaky_net ''f'' keyed_session))) =
     [Inr [2, 2, 2], Inr [2, 2, 2]] \<and>
   sent (snd (call_sequence flaky_net [''g'', ''h'']
          (snd (Hybrid_GenerateEmbedding flaky_net ''f'' keyed_session)))) =
     [(Ollama, ''f''), (OpenAI, ''f''), (OpenAI, ''g''), (OpenAI, ''h'')]"
proof -
  let ?first = "Hybrid_GenerateEmbedding flaky_net ''f'' keyed_session"
  let ?later = "call_sequence flaky_net [''g'', ''h''] (snd ?first)"
  have flag: "useOllama (hybrid keyed_session)"
    by (simp add: eval_provider)
  have fails: "Ollama_GenerateEmbedding
      (ollama_embeddings flaky_net (length (sent keyed_session)) ''f'') = Inl OllamaRequestFailed"
    by (simp add: eval_provider)
  have key: "openai (hybrid keyed_session) \<noteq> None"
    by (simp add: eval_provider)
  have empty: "sent keyed_session = []"
    by (simp add: eval_provider)
  have answer: "OpenAI_GenerateEmbedding (openai_embeddings flaky_net n t) = Inr [2, 2, 2]" for n t
    by (simp add: eval_provider)
  note sticky = hybrid_failover_sticky [OF flag fails, of "fst ?first" "snd ?first"
      "[''g'', ''h'']" "fst ?later" "snd ?later"]
  from sticky key empty answer
  have "fst ?first = Inr [2, 2, 2]"
    and "fst ?later = [Inr [2, 2, 2], Inr [2, 2, 2]]"
    and "sent (snd ?later) = [(Ollama, ''f''), (OpenAI, ''f''), (OpenAI, ''g''), (OpenAI, ''h'')]"
    by simp_all
  with flag fails key show ?thesis
    by (intro conjI)
qed

section \<open>Duplicate detection\<close>

lemma FindDuplicates_eq:
  "FindDuplicates index q t excludeID =
     Inr (filter (\<lambda>result. ID (CodeEmbedding result) \<noteq> excludeID \<and> Similarity result \<ge> t)
            (ranked q index))"
  by (simp add: FindDuplicates_def Search_all)

lemma DetectDuplicates_eq:
  assumes "Hybrid_GenerateEmbedding net code s = (Inr q, s1)"
  shows "DetectDuplicates net d code filePath funcName s =
           (Inr (filter (\<lambda>dup. FilePath (CodeEmbedding dup) \<noteq> filePath
                             \<or> FuncName (CodeEmbedding dup) \<noteq> funcName)
                   (filter (\<lambda>result. ID (CodeEmbedding result) \<noteq> [] \<and>
                                     Similarity result \<ge> threshold d)
                      (ranked q (search d)))),
            s1)"
  using assms by (simp add: DetectDuplicates_def FindDuplicates_eq)

text \<open>
  Claim C3, as stated, fails. The index holds the method \<open>Area\<close> declared on line 10
  of \<open>shape.go\<close>; the query is the other method \<open>Area\<close> of that file, with the same
  embedding. \<open>DetectDuplicates\<close> takes no unit id: it passes the empty string to
  \<open>FindDuplicates\<close> and drops every result with the query's path and name, so the
  entry, a different unit of score 1, is not reported. Queried under another name the
  same entry is reported.
\<close>

theorem DetectDuplicates_conflates_counterexample:
  "fst (DetectDuplicates steady_net (NewDuplicateDetector (index_of [area_line10]) 0)
          ''// Function: Area'' ''shape.go'' ''Area'' steady_session) = Inr [] \<and>
   fst (DetectDuplicates steady_net (NewDuplicateDetector (index_of [area_line10]) 0)
          ''// Function: Area'' ''shape.go'' ''Perimeter'' steady_session) =
     Inr [\<lparr>CodeEmbedding = area_line10, Similarity = 1\<rparr>]"
  by (simp add: DetectDuplicates_def FindDuplicates_def NewDuplicateDetector_def eval_search
      area_line10_def steady_net_def steady_session_def Hybrid_GenerateEmbedding_def
      try_ollama_def Ollama_GenerateEmbedding_def NewHybridProvider_def NewOllamaProvider_def
      Ollama_IsAvailable_def new_session_def)

text \<open>
  Claim C3, amended. \<open>FindDuplicates\<close> excludes by id: its results are the scored
  entries at or above the threshold whose id differs from \<open>excludeID\<close>. \<open>DetectDuplicates\<close>
  excludes the query by file path and function name together: when the embedding of
  the query succeeds, its results are the scored entries at or above the threshold
  with a non-empty id whose path or name differs from the query's.
\<close>

theorem DetectDuplicates_exclusion:
  assumes "Hybrid_GenerateEmbedding net code s = (Inr q, s1)"
  shows "(\<exists>dups. FindDuplicates index v t excludeID = Inr dups \<and>
            set dups = {r \<in> set (score_all v (Embeddings index)).
                          ID (CodeEmbedding r) \<noteq> excludeID \<and> t \<le> Similarity r}) \<and>
         (\<exists>results. DetectDuplicates net d code filePath funcName s = (Inr results, s1) \<and>
            set results = {r \<in> set (score_all q (Embeddings (search d))).
                             ID (CodeEmbedding r) \<noteq> [] \<and> threshold d \<le> Similarity r \<and>
                             (FilePath (CodeEmbedding r) \<noteq> filePath \<or>
                              FuncName (CodeEmbedding r) \<noteq> funcName)})"
proof (intro conjI exI)
  show "FindDuplicates index v t excludeID =
      Inr (filter (\<lambda>result. ID (CodeEmbedding result) \<noteq> excludeID \<and> Similarity result \<ge> t)
             (ranked v index))"
    by (rule FindDuplicates_eq)
  show "set (filter (\<lambda>result. ID (CodeEmbedding result) \<noteq> excludeID \<and> Similarity result \<ge> t)
               (ranked v index)) =
      {r \<in> set (score_all v (Embeddings index)).
         ID (CodeEmbedding r) \<noteq> excludeID \<and> t \<le> Similarity r}"
    by (auto simp: set_ranked)
  show "DetectDuplicates net d code filePath funcName s =
      (Inr (filter (\<lambda>dup. FilePath (CodeEmbedding dup) \<noteq> filePath
                        \<or> FuncName (CodeEmbedding dup) \<noteq> funcName)
              (filter (\<lambda>result. ID (CodeEmbedding result) \<noteq> [] \<and>
                                Similarity result \<ge> threshold d)
                 (ranked q (search d)))),
       s1)"
    using assms by (rule DetectDuplicates_eq)
  show "set (filter (\<lambda>dup. FilePath (CodeEmbedding dup) \<noteq> filePath
                        \<or> FuncName (CodeEmbedding dup) \<noteq> funcName)
              (filter (\<lambda>result. ID (CodeEmbedding result) \<noteq> [] \<and>
                                Similarity result \<ge> threshold d)
                 (ranked q (search d)))) =
      {r \<in> set (score_all q (Embeddings (search d))).
         ID (CodeEmbedding r) \<noteq> [] \<and> threshold d \<le> Similarity r \<and>
         (FilePath (CodeEmbedding r) \<noteq> filePath \<or> FuncName (CodeEmbedding r) \<noteq> funcName)}"
    by (auto simp: set_ranked)
qed

lemma steady_call:
  "Hybrid_GenerateEmbedding steady_net code steady_session =
     (Inr [1, 0], steady_session\<lparr>sent := [(Ollama, code)]\<rparr>)"
  by (simp add: steady_net_def steady_session_def Hybrid_GenerateEmbedding_def
      try_ollama_def Ollama_GenerateEmbedding_def NewHybridProvider_def NewOllamaProvider_def
      Ollama_IsAvailable_def new_session_def)

theorem DetectDuplicates_exclusion_witness:
  "Hybrid_GenerateEmbedding steady_net ''// Function: Sum'' steady_session =
     (Inr [1, 0], steady_session\<lparr>sent := [(Ollama, ''// Function: Sum'')]\<rparr>) \<and>
   DetectDuplicates steady_net (NewDuplicateDetector (index_of [unit_c, unit_b, unit_a]) 0)
     ''// Function: Sum'' ''alpha.go'' ''Sum'' steady_session =
     (Inr [\<lparr>CodeEmbedding = unit_b, Similarity = 1\<rparr>],
      steady_session\<lparr>sent := [(Ollama, ''// Function: Sum'')]\<rparr>) \<and>
   set [\<lparr>CodeEmbedding = unit_b, Similarity = 1\<rparr>] =
     {r \<in> set (score_all [1, 0] [unit_c, unit_b, unit_a]).
        ID (CodeEmbedding r) \<noteq> [] \<and> 0.85 \<le> Similarity r \<and>
        (FilePath (CodeEmbedding r) \<noteq> ''alpha.go'' \<or> FuncName (CodeEmbedding r) \<noteq> ''Sum'')}"
proof -
  let ?d = "NewDuplicateDetector (index_of [unit_c, unit_b, unit_a]) 0"
  let ?s1 = "steady_session\<lparr>sent := [(Ollama, ''// Function: Sum'')]\<rparr>"
  have call: "Hybrid_GenerateEmbedding steady_net ''// Function: Sum'' steady_session =
      (Inr [1, 0], ?s1)"
    by (rule steady_call)
  have run: "DetectDuplicates steady_net ?d ''// Function: Sum'' ''alpha.go'' ''Sum''
      steady_session = (Inr [\<lparr>CodeEmbedding = unit_b, Similarity = 1\<rparr>], ?s1)"
    by (simp add: DetectDuplicates_def steady_call FindDuplicates_def NewDuplicateDetector_def
        eval_search)
  obtain results where
    "DetectDuplicates steady_net ?d ''// Function: Sum'' ''alpha.go'' ''Sum'' steady_session =
       (Inr results, ?s1)"
    "set results = {r \<in> set (score_all [1, 0] (Embeddings (search ?d))).
        ID (CodeEmbedding r) \<noteq> [] \<and> threshold ?d \<le> Similarity r \<and>
        (FilePath (CodeEmbedding r) \<noteq> ''alpha.go'' \<or> FuncName (CodeEmbedding r) \<noteq> ''Sum'')}"
    using DetectDuplicates_exclusion [OF call] by blast
  with run have "set [\<lparr>CodeEmbedding = unit_b, Similarity = 1\<rparr>] =
      {r \<in> set (score_all [1, 0] [unit_c, unit_b, unit_a]).
         ID (CodeEmbedding r) \<noteq> [] \<and> 0.85 \<le> Similarity r \<and>
         (FilePath (CodeEmbedding r) \<noteq> ''alpha.go'' \<or> FuncName (CodeEmbedding r) \<noteq> ''Sum'')}"
    by (simp add: NewDuplicateDetector_def index_of_def)
  with call run show ?thesis
    by (intro conjI)
qed

section \<open>The index a build produces\<close>













end
